theory Spec2Isabelle
  imports Complex_Main "HOL-Library.Product_Lexorder" "HOL-Library.Multiset"
begin

section \<open>Multimodal processor: shallow embedding of multimodal\_processor.py\<close>

text \<open>
  The pipelines of \<^verbatim>\<open>MultimodalProcessor\<close> are embedded as HOL functions.
  \<^item> Python floats are modelled by \<^typ>\<open>real\<close> (no rounding, no NaN).
  \<^item> A raised exception is a value of type \<open>exn\<close>; a call that may raise returns
    \<open>exn + 'a\<close> with \<open>Inl\<close> for the exception.
  \<^item> The trained models and the libraries (OpenCV, librosa, moviepy, ...) are
    parameters gathered in the record \<open>env\<close>: an entry of \<^verbatim>\<open>self.models\<close> or a
    library that may be missing from \<^verbatim>\<open>globals()\<close> is an \<open>option\<close>.
  \<^item> The log and the scratch directory are the state \<open>world\<close>, passed explicitly.
  \<^item> The calls that may raise are those of the models and of the libraries that read
    media (face cascade, OCR, librosa, recogniser, moviepy); writing, reading and deleting
    a scratch file and the array operations of NumPy and OpenCV are taken to succeed, and
    \<^verbatim>\<open>cv2.imdecode\<close> answers \<^verbatim>\<open>None\<close> for bytes that do not decode.
  \<^item> The \<^verbatim>\<open>metadata\<close> argument, which no pipeline reads, is left out. A \<^verbatim>\<open>uint8\<close> channel
    value is a natural number.
\<close>

subsection \<open>Exceptions, log and scratch directory\<close>

datatype exn =
    ValueError string
  | AttributeError string
  | UnboundLocalError string
  | UnknownValueError
  | RequestError string
  | RuntimeError string

fun str_exn :: "exn \<Rightarrow> string" where
  "str_exn (ValueError m) = m"
| "str_exn (AttributeError m) = m"
| "str_exn (UnboundLocalError m) = m"
| "str_exn UnknownValueError = []"
| "str_exn (RequestError m) = m"
| "str_exn (RuntimeError m) = m"

type_synonym bytes = "nat list"

text \<open>
  A scratch file \<^verbatim>\<open>Path(temp_dir) / f"{prefix}{timestamp}{suffix}"\<close>; the timestamp is the
  reading of the clock.
\<close>

datatype path = TempFile string nat string

fun with_suffix :: "path \<Rightarrow> string \<Rightarrow> path" where
  "with_suffix (TempFile prefix ts old) suffix = TempFile prefix ts suffix"

datatype log_entry = LogWarning string | LogError string

record world =
  files :: "path \<rightharpoonup> bytes"
  clock :: nat
  log :: "log_entry list"

definition log_warning :: "string \<Rightarrow> world \<Rightarrow> world" where
  "log_warning m w = w\<lparr>log := log w @ [LogWarning m]\<rparr>"

definition log_error :: "string \<Rightarrow> world \<Rightarrow> world" where
  "log_error m w = w\<lparr>log := log w @ [LogError m]\<rparr>"

text \<open>\<^verbatim>\<open>datetime.now().timestamp()\<close>: reads the clock, and time passes.\<close>

definition now_timestamp :: "world \<Rightarrow> nat \<times> world" where
  "now_timestamp w = (clock w, w\<lparr>clock := Suc (clock w)\<rparr>)"

text \<open>\<^verbatim>\<open>with open(p, 'wb') as f: f.write(data)\<close>\<close>

definition write_file :: "path \<Rightarrow> bytes \<Rightarrow> world \<Rightarrow> world" where
  "write_file p data w = w\<lparr>files := (files w)(p \<mapsto> data)\<rparr>"

text \<open>\<^verbatim>\<open>p.unlink()\<close> and \<^verbatim>\<open>if p.exists(): p.unlink()\<close>\<close>

definition unlink :: "path \<Rightarrow> world \<Rightarrow> world" where
  "unlink p w = w\<lparr>files := (files w)(p := None)\<rparr>"

definition unlink_if_exists :: "path \<Rightarrow> world \<Rightarrow> world" where
  "unlink_if_exists p w = (if files w p \<noteq> None then unlink p w else w)"

subsection \<open>Strings\<close>

definition digit_char :: "nat \<Rightarrow> char" where
  "digit_char d = ''0123456789abcdef'' ! d"

text \<open>\<^verbatim>\<open>str(n)\<close> and \<^verbatim>\<open>f"{n:x}"\<close> for a non-negative integer.\<close>

fun show_nat :: "nat \<Rightarrow> string" where
  "show_nat n = (if n < 10 then [digit_char n] else show_nat (n div 10) @ [digit_char (n mod 10)])"

fun to_hex :: "nat \<Rightarrow> string" where
  "to_hex n = (if n < 16 then [digit_char n] else to_hex (n div 16) @ [digit_char (n mod 16)])"

declare show_nat.simps [simp del]
declare to_hex.simps [simp del]

text \<open>\<^verbatim>\<open>f"{n:02x}"\<close>: lower-case hexadecimal, padded with zeros to two digits at least.\<close>

definition fmt_02x :: "nat \<Rightarrow> string" where
  "fmt_02x n = (let s = to_hex n in replicate (2 - length s) CHR ''0'' @ s)"

text \<open>\<^verbatim>\<open>sep.join(parts)\<close>\<close>

fun join :: "string \<Rightarrow> string list \<Rightarrow> string" where
  "join sep [] = []"
| "join sep [p] = p"
| "join sep (p # q # ps) = p @ sep @ join sep (q # ps)"

text \<open>The ASCII white space of \<^verbatim>\<open>str.split()\<close> and \<^verbatim>\<open>str.strip()\<close>.\<close>

definition is_space :: "char \<Rightarrow> bool" where
  "is_space c = (let n = (of_char c :: nat) in (9 \<le> n \<and> n \<le> 13) \<or> (28 \<le> n \<and> n \<le> 32))"

text \<open>\<^verbatim>\<open>s.split()\<close>: the maximal runs of characters that are not white space.\<close>

fun split_acc :: "string \<Rightarrow> string \<Rightarrow> string list" where
  "split_acc cur [] = (if cur = [] then [] else [cur])"
| "split_acc cur (c # cs) =
     (if is_space c then (if cur = [] then split_acc [] cs else cur # split_acc [] cs)
      else split_acc (cur @ [c]) cs)"

definition split :: "string \<Rightarrow> string list" where
  "split s = split_acc [] s"

definition strip :: "string \<Rightarrow> string" where
  "strip s = rev (dropWhile is_space (rev (dropWhile is_space s)))"

text \<open>\<^verbatim>\<open>s.lower()\<close> on ASCII letters.\<close>

definition lower_char :: "char \<Rightarrow> char" where
  "lower_char c = (let n = (of_char c :: nat) in if 65 \<le> n \<and> n \<le> 90 then char_of (n + 32) else c)"

definition lower :: "string \<Rightarrow> string" where
  "lower s = map lower_char s"

subsection \<open>Result records\<close>

record sentiment_result =
  score :: real
  label :: string
  confidence :: real

record entity =
  entity_text :: string
  entity_type :: string
  entity_confidence :: real

record keyword =
  keyword_text :: string
  relevance :: real

record text_results =
  extracted_text :: string
  language :: string
  word_count :: nat
  character_count :: nat
  sentiment :: sentiment_result
  entities :: "entity list"
  text_keywords :: "keyword list"
  topics :: "string set"
  summary :: string
  embeddings :: "real list option"

record face =
  face_confidence :: real
  bounding_box :: "int \<times> int \<times> int \<times> int"

record scene =
  name :: string
  scene_confidence :: real

record color =
  hex :: string
  percentage :: real

text \<open>
  \<^verbatim>\<open>objects\<close>, \<^verbatim>\<open>landmarks\<close> and \<^verbatim>\<open>safety_labels\<close> are never filled in by the source.
  \<^verbatim>\<open>tags\<close> is \<^verbatim>\<open>list(set(tags))\<close>, whose order Python leaves open: it is a set here.
\<close>

record image_results =
  objects :: "string list"
  faces :: "face list"
  image_text :: string
  scenes :: "scene list"
  colors :: "color list"
  landmarks :: "string list"
  safety_labels :: "string list"
  description :: string
  tags :: "string set"

record transcription_result =
  transcription_text :: string
  transcription_confidence :: real
  transcription_language :: string
  speakers :: "string list"

record audio_features_result =
  volume :: real
  pitch :: real
  tempo :: real
  music_genre :: string
  instruments :: "string list"

record audio_results =
  transcription :: transcription_result
  audio_features :: audio_features_result
  emotions :: "string list"
  noise_level :: real
  silence_segments :: "string list"

record video_segment =
  segment_start :: real
  segment_end :: real
  segment_description :: string
  keyframes :: "string list"
  segment_objects :: "string list"

record motion_result =
  intensity :: real
  direction :: string
  camera_movement :: string

record quality_result =
  resolution :: string
  frame_rate :: real
  bitrate :: nat
  stability :: real

record video_results =
  video_scenes :: "video_segment list"
  video_faces :: "face list"
  audio :: "audio_results option"
  motion :: motion_result
  quality :: quality_result

subsection \<open>Collaborators\<close>

text \<open>
  A decoded image: the \<open>height \<times> width \<times> 3\<close> array of \<^verbatim>\<open>uint8\<close> that OpenCV returns, as
  its shape and its pixels in row order. A pixel is the triple of its channels in the
  order of the array (blue, green, red after \<^verbatim>\<open>cv2.imdecode\<close>).
\<close>

type_synonym pixel = "nat \<times> nat \<times> nat"

record image =
  height :: nat
  width :: nat
  pixels :: "pixel list"

text \<open>What spaCy returns: the texts of the noun chunks, and the entities with their labels.\<close>

record doc =
  noun_chunks :: "string list"
  ents :: "(string \<times> string) list"

text \<open>
  The speech recogniser: \<^verbatim>\<open>record(source)\<close> on the opened audio file, then
  \<^verbatim>\<open>recognize_google(audio)\<close>.
\<close>

record recognizer =
  record_source :: "bytes \<Rightarrow> exn + bytes"
  recognize_google :: "bytes \<Rightarrow> exn + string"

text \<open>
  What the librosa block computes from the file: the sample rate, the volume, the mean of
  the positive pitch values when there is a pitch value at all, and the tempo.
\<close>

record librosa_analysis =
  sample_rate :: nat
  mean_abs :: real
  mean_pitch :: "real option"
  beat_tempo :: real

text \<open>
  \<^verbatim>\<open>clip.audio.write_audiofile(path)\<close> writes the track, or raises, with or without a
  partly written file left behind.
\<close>

datatype write_outcome = Written bytes | WriteFailed exn "bytes option"

record clip =
  clip_w :: nat
  clip_h :: nat
  fps :: real
  duration :: real
  clip_audio :: "write_outcome option"
  get_frame :: "real \<Rightarrow> exn + image"

record env =
  sentiment_model :: "(string \<Rightarrow> exn + (string \<times> real) list list) option"
  ner_model :: "(string \<Rightarrow> exn + (string \<times> string \<times> real) list) option"
  summarization_model :: "(string \<Rightarrow> exn + string list) option"
  nlp_model :: "(string \<Rightarrow> exn + doc) option"
  embeddings_model :: "(string \<Rightarrow> exn + real list) option"
  face_cascade :: "(image \<Rightarrow> exn + (int \<times> int \<times> int \<times> int) list) option"
  speech_recognizer :: "recognizer option"
  pytesseract :: "(image \<Rightarrow> exn + string) option"
  librosa :: "(bytes \<Rightarrow> exn + librosa_analysis) option"
  VideoFileClip :: "(bytes \<Rightarrow> exn + clip) option"
  imdecode :: "bytes \<Rightarrow> image option"
  jpeg_encode :: "image \<Rightarrow> bytes"
  argsort :: "nat list \<Rightarrow> nat list"

subsection \<open>Image pipeline (\<^verbatim>\<open>process_image\<close>)\<close>

definition default_image_results :: image_results where
  "default_image_results =
     \<lparr>objects = [], faces = [], image_text = [], scenes = [], colors = [], landmarks = [],
      safety_labels = [], description = [], tags = {}\<rparr>"

text \<open>\<^verbatim>\<open>cv2.cvtColor(image, cv2.COLOR_BGR2RGB)\<close>: the first and the third channel change places.\<close>

definition cvtColor_BGR2RGB :: "image \<Rightarrow> image" where
  "cvtColor_BGR2RGB img = img\<lparr>pixels := map (\<lambda>(b, g, r). (r, g, b)) (pixels img)\<rparr>"

text \<open>
  Face detection. The source converts the image to grey and calls the cascade; the model
  hands the image to the detector, which may raise. No handler surrounds the call.
\<close>

definition detect_faces :: "env \<Rightarrow> image \<Rightarrow> image_results \<Rightarrow> exn + image_results" where
  "detect_faces E img results =
     (case face_cascade E of
        None \<Rightarrow> Inr results
      | Some detectMultiScale \<Rightarrow>
          (case detectMultiScale img of
             Inl e \<Rightarrow> Inl e
           | Inr found \<Rightarrow>
               Inr (results\<lparr>faces :=
                 map (\<lambda>box. \<lparr>face_confidence = 0.8, bounding_box = box\<rparr>) found\<rparr>)))"

text \<open>OCR, inside its own \<^verbatim>\<open>try\<close>: a failure is logged as a warning and the text stays empty.\<close>

definition extract_text :: "env \<Rightarrow> image \<Rightarrow> image_results \<Rightarrow> world \<Rightarrow> image_results \<times> world" where
  "extract_text E img results w =
     (case pytesseract E of
        None \<Rightarrow> (results, w)
      | Some image_to_string \<Rightarrow>
          (case image_to_string (cvtColor_BGR2RGB img) of
             Inl e \<Rightarrow> (results, log_warning (''OCR failed: '' @ str_exn e) w)
           | Inr extracted \<Rightarrow> (results\<lparr>image_text := strip extracted\<rparr>, w)))"

text \<open>
  \<^verbatim>\<open>np.unique(pixels, axis=0, return_counts=True)\<close>: the distinct rows in lexicographic
  order, and how often each occurs.
\<close>

definition np_unique :: "pixel list \<Rightarrow> pixel list \<times> nat list" where
  "np_unique ps = (let unique_colors = sort (remdups ps)
                   in (unique_colors, map (count_list ps) unique_colors))"

text \<open>
  \<^verbatim>\<open>np.argsort(counts)[-5:][::-1]\<close>. The sort is the parameter \<open>srt\<close>: NumPy's default
  sort is not stable, so the order it gives to equal counts is left open.
\<close>

definition top_indices :: "(nat list \<Rightarrow> nat list) \<Rightarrow> nat list \<Rightarrow> nat list" where
  "top_indices srt counts = (let sorted_indices = srt counts
                             in rev (drop (length sorted_indices - 5) sorted_indices))"

definition color_analysis :: "(nat list \<Rightarrow> nat list) \<Rightarrow> image \<Rightarrow> color list" where
  "color_analysis srt img =
     (let total_pixels = height img * width img;
          image_rgb = cvtColor_BGR2RGB img;
          (unique_colors, counts) = np_unique (pixels image_rgb);
          color_percentages = map (\<lambda>c. real c / real total_pixels * 100) counts
      in map (\<lambda>i. case unique_colors ! i of
                     (r, g, b) \<Rightarrow> \<lparr>hex = ''#'' @ fmt_02x r @ fmt_02x g @ fmt_02x b,
                                   percentage = color_percentages ! i\<rparr>)
             (top_indices srt counts))"

text \<open>\<^verbatim>\<open>np.mean(image_rgb, axis=(0, 1))\<close>: the mean of each channel over all pixels.\<close>

definition np_mean :: "nat list \<Rightarrow> real" where
  "np_mean xs = real (sum_list xs) / real (length xs)"

definition avg_color :: "image \<Rightarrow> real \<times> real \<times> real" where
  "avg_color image_rgb =
     (np_mean (map (\<lambda>(c0, c1, c2). c0) (pixels image_rgb)),
      np_mean (map (\<lambda>(c0, c1, c2). c1) (pixels image_rgb)),
      np_mean (map (\<lambda>(c0, c1, c2). c2) (pixels image_rgb)))"

text \<open>
  The scene classification: \<^verbatim>\<open>avg_color[2] > 150 and avg_color[1] > 100\<close>, then
  \<^verbatim>\<open>avg_color.mean() < 100\<close>, then the rest.
\<close>

definition classify_scene :: "image \<Rightarrow> scene" where
  "classify_scene image_rgb =
     (case avg_color image_rgb of
        (a0, a1, a2) \<Rightarrow>
          if a2 > 150 \<and> a1 > 100 then \<lparr>name = ''outdoor'', scene_confidence = 0.7\<rparr>
          else if (a0 + a1 + a2) / 3 < 100 then \<lparr>name = ''indoor'', scene_confidence = 0.6\<rparr>
          else \<lparr>name = ''mixed'', scene_confidence = 0.5\<rparr>)"

definition description_parts :: "image_results \<Rightarrow> string list" where
  "description_parts results =
     (if faces results \<noteq> [] then [show_nat (length (faces results)) @ '' face(s) detected'']
      else [])
     @ (if image_text results \<noteq> [] then [''contains text''] else [])
     @ (case scenes results of [] \<Rightarrow> [] | s # rest \<Rightarrow> [name s @ '' scene''])"

definition generate_description :: "image_results \<Rightarrow> string" where
  "generate_description results =
     (let parts = description_parts results
      in if parts \<noteq> [] then ''Image with '' @ join '', '' parts
         else ''Image analysis completed'')"

definition generate_tags :: "image_results \<Rightarrow> string set" where
  "generate_tags results =
     set ((if faces results \<noteq> [] then [''people''] else [])
          @ (if image_text results \<noteq> [] then [''text''] else [])
          @ map name (scenes results))"

text \<open>The body of the outer \<^verbatim>\<open>try\<close> of \<^verbatim>\<open>process_image\<close>.\<close>

definition process_image_body :: "env \<Rightarrow> bytes \<Rightarrow> world \<Rightarrow> (exn + image_results) \<times> world" where
  "process_image_body E image_data w =
     (case imdecode E image_data of
        None \<Rightarrow> (Inl (ValueError ''Invalid image data''), w)
      | Some img \<Rightarrow>
          (case detect_faces E img default_image_results of
             Inl e \<Rightarrow> (Inl e, w)
           | Inr r1 \<Rightarrow>
               (case extract_text E img r1 w of
                  (r2, w2) \<Rightarrow>
                    (let r3 = r2\<lparr>colors := color_analysis (argsort E) img\<rparr>;
                         r4 = r3\<lparr>scenes := scenes r3 @ [classify_scene (cvtColor_BGR2RGB img)]\<rparr>;
                         r5 = r4\<lparr>description := generate_description r4\<rparr>;
                         r6 = r5\<lparr>tags := generate_tags r5\<rparr>
                     in (Inr r6, w2)))))"

text \<open>The outer handler: \<^verbatim>\<open>except Exception as e: logger.error(...); raise\<close>.\<close>

definition process_image :: "env \<Rightarrow> bytes \<Rightarrow> world \<Rightarrow> (exn + image_results) \<times> world" where
  "process_image E image_data w =
     (case process_image_body E image_data w of
        (Inl e, w') \<Rightarrow> (Inl e, log_error (''Image processing error: '' @ str_exn e) w')
      | (Inr results, w') \<Rightarrow> (Inr results, w'))"

subsection \<open>Text pipeline (\<^verbatim>\<open>process_text\<close>)\<close>

definition default_text_results :: "string \<Rightarrow> text_results" where
  "default_text_results txt =
     \<lparr>extracted_text = txt, language = ''en'', word_count = length (split txt),
      character_count = length txt,
      sentiment = \<lparr>score = 0, label = ''neutral'', confidence = 0\<rparr>,
      entities = [], text_keywords = [], topics = {}, summary = [], embeddings = None\<rparr>"

text \<open>\<^verbatim>\<open>max(x # xs, key=key)\<close>: the first element whose key is greatest.\<close>

fun max_by :: "('a \<Rightarrow> real) \<Rightarrow> 'a \<Rightarrow> 'a list \<Rightarrow> 'a" where
  "max_by key best [] = best"
| "max_by key best (x # xs) = max_by key (if key best < key x then x else best) xs"

text \<open>
  Sentiment analysis. The classifier returns, for the one text, a list holding the list of
  (label, score) of every class. No handler surrounds the call.
\<close>

definition analyze_sentiment :: "env \<Rightarrow> string \<Rightarrow> text_results \<Rightarrow> exn + text_results" where
  "analyze_sentiment E txt results =
     (case sentiment_model E of
        None \<Rightarrow> Inr results
      | Some classify \<Rightarrow>
          (case classify txt of
             Inl e \<Rightarrow> Inl e
           | Inr sentiment_results \<Rightarrow>
               (case sentiment_results of
                  [] \<Rightarrow> Inr results
                | first # others \<Rightarrow>
                    (case first of
                       [] \<Rightarrow> Inr results
                     | x # xs \<Rightarrow>
                         (let best_sentiment = max_by snd x xs
                          in Inr (results\<lparr>sentiment :=
                               \<lparr>score = snd best_sentiment
                                   * (if fst best_sentiment = ''POSITIVE'' then 1 else - 1),
                                label = lower (fst best_sentiment),
                                confidence = snd best_sentiment\<rparr>\<rparr>))))))"

text \<open>Named entities: (word, entity group, score) of each. No handler surrounds the call.\<close>

definition recognize_entities :: "env \<Rightarrow> string \<Rightarrow> text_results \<Rightarrow> exn + text_results" where
  "recognize_entities E txt results =
     (case ner_model E of
        None \<Rightarrow> Inr results
      | Some ner \<Rightarrow>
          (case ner txt of
             Inl e \<Rightarrow> Inl e
           | Inr found \<Rightarrow>
               Inr (results\<lparr>entities :=
                 map (\<lambda>(word, entity_group, sc).
                        \<lparr>entity_text = word, entity_type = lower entity_group,
                         entity_confidence = sc\<rparr>) found\<rparr>)))"

text \<open>
  Summarisation, for texts longer than 500 characters, inside its own \<^verbatim>\<open>try\<close>: a failure
  is logged as a warning and the summary stays empty.
\<close>

definition summarize :: "env \<Rightarrow> string \<Rightarrow> text_results \<Rightarrow> world \<Rightarrow> text_results \<times> world" where
  "summarize E txt results w =
     (case summarization_model E of
        None \<Rightarrow> (results, w)
      | Some summarizer \<Rightarrow>
          if length txt > 500 then
            (case summarizer txt of
               Inl e \<Rightarrow> (results, log_warning (''Summarization failed: '' @ str_exn e) w)
             | Inr [] \<Rightarrow> (results, w)
             | Inr (summary_text # others) \<Rightarrow> (results\<lparr>summary := summary_text\<rparr>, w))
          else (results, w))"

text \<open>Keywords and topics from spaCy. No handler surrounds the call.\<close>

definition extract_keywords :: "env \<Rightarrow> string \<Rightarrow> text_results \<Rightarrow> exn + text_results" where
  "extract_keywords E txt results =
     (case nlp_model E of
        None \<Rightarrow> Inr results
      | Some nlp \<Rightarrow>
          (case nlp txt of
             Inl e \<Rightarrow> Inl e
           | Inr d \<Rightarrow>
               (let kws = map (\<lambda>chunk. \<lparr>keyword_text = chunk, relevance = 0.8\<rparr>)
                              (filter (\<lambda>chunk. length chunk > 2) (noun_chunks d))
                          @ map (\<lambda>(ent_text, ent_label). \<lparr>keyword_text = ent_text, relevance = 0.9\<rparr>)
                                (ents d)
                in Inr (results\<lparr>text_keywords := take 20 kws,
                                topics := set (map snd (ents d))\<rparr>))))"

text \<open>Sentence embeddings. No handler surrounds the call.\<close>

definition generate_embeddings :: "env \<Rightarrow> string \<Rightarrow> text_results \<Rightarrow> exn + text_results" where
  "generate_embeddings E txt results =
     (case embeddings_model E of
        None \<Rightarrow> Inr results
      | Some encode \<Rightarrow>
          (case encode txt of
             Inl e \<Rightarrow> Inl e
           | Inr vector \<Rightarrow> Inr (results\<lparr>embeddings := Some vector\<rparr>)))"

text \<open>The body of the outer \<^verbatim>\<open>try\<close> of \<^verbatim>\<open>process_text\<close>: the five steps in order.\<close>

definition process_text_body :: "env \<Rightarrow> string \<Rightarrow> world \<Rightarrow> (exn + text_results) \<times> world" where
  "process_text_body E txt w =
     (case analyze_sentiment E txt (default_text_results txt) of
        Inl e \<Rightarrow> (Inl e, w)
      | Inr r1 \<Rightarrow>
          (case recognize_entities E txt r1 of
             Inl e \<Rightarrow> (Inl e, w)
           | Inr r2 \<Rightarrow>
               (case summarize E txt r2 w of
                  (r3, w3) \<Rightarrow>
                    (case extract_keywords E txt r3 of
                       Inl e \<Rightarrow> (Inl e, w3)
                     | Inr r4 \<Rightarrow>
                         (case generate_embeddings E txt r4 of
                            Inl e \<Rightarrow> (Inl e, w3)
                          | Inr r5 \<Rightarrow> (Inr r5, w3))))))"

text \<open>The outer handler: \<^verbatim>\<open>except Exception as e: logger.error(...); raise\<close>.\<close>

definition process_text :: "env \<Rightarrow> string \<Rightarrow> world \<Rightarrow> (exn + text_results) \<times> world" where
  "process_text E txt w =
     (case process_text_body E txt w of
        (Inl e, w') \<Rightarrow> (Inl e, log_error (''Text processing error: '' @ str_exn e) w')
      | (Inr results, w') \<Rightarrow> (Inr results, w'))"

subsection \<open>Audio pipeline (\<^verbatim>\<open>process_audio\<close>)\<close>

definition default_audio_results :: audio_results where
  "default_audio_results =
     \<lparr>transcription = \<lparr>transcription_text = [], transcription_confidence = 0,
                       transcription_language = ''en'', speakers = []\<rparr>,
      audio_features = \<lparr>volume = 0, pitch = 0, tempo = 0, music_genre = [], instruments = []\<rparr>,
      emotions = [], noise_level = 0, silence_segments = []\<rparr>"

text \<open>
  What the name \<^verbatim>\<open>sr\<close> denotes inside \<^verbatim>\<open>process_audio\<close>. The function assigns to it
  (\<^verbatim>\<open>y, sr = librosa.load(...)\<close>), which makes \<^verbatim>\<open>sr\<close> a local variable of the whole function
  body in Python: it is unbound until that assignment runs and the sample rate afterwards.
  It never denotes the module \<^verbatim>\<open>speech_recognition\<close> imported as \<^verbatim>\<open>sr\<close> at the top of the
  file; \<open>SrModule\<close> stands for that reading, which the speech block was written for.
\<close>

datatype sr_name = SrUnbound | SrSampleRate nat | SrModule

text \<open>The librosa block: volume, pitch when there is a pitch value, tempo.\<close>

definition extract_audio_features ::
  "env \<Rightarrow> bytes \<Rightarrow> audio_results \<Rightarrow> exn + audio_results \<times> sr_name" where
  "extract_audio_features E audio_data results =
     (case librosa E of
        None \<Rightarrow> Inr (results, SrUnbound)
      | Some analyse \<Rightarrow>
          (case analyse audio_data of
             Inl e \<Rightarrow> Inl e
           | Inr a \<Rightarrow>
               Inr (results\<lparr>audio_features := (audio_features results)
                      \<lparr>volume := mean_abs a,
                       pitch := (case mean_pitch a of
                                   None \<Rightarrow> pitch (audio_features results)
                                 | Some p \<Rightarrow> p),
                       tempo := beat_tempo a\<rparr>\<rparr>,
                    SrSampleRate (sample_rate a))))"

text \<open>
  The body of \<^verbatim>\<open>with sr.AudioFile(...) as source\<close>: record, recognise, and the two handlers
  for \<^verbatim>\<open>sr.UnknownValueError\<close> and \<^verbatim>\<open>sr.RequestError\<close>. Any other exception leaves the block.
\<close>

definition transcribe ::
  "recognizer \<Rightarrow> bytes \<Rightarrow> audio_results \<Rightarrow> world \<Rightarrow> (exn + audio_results) \<times> world" where
  "transcribe rec audio_data results w =
     (case record_source rec audio_data of
        Inl e \<Rightarrow> (Inl e, w)
      | Inr recorded \<Rightarrow>
          (case recognize_google rec recorded of
             Inr recognized \<Rightarrow>
               (Inr (results\<lparr>transcription := (transcription results)
                       \<lparr>transcription_text := recognized, transcription_confidence := 0.8\<rparr>\<rparr>), w)
           | Inl UnknownValueError \<Rightarrow>
               (Inr (results\<lparr>transcription := (transcription results)
                       \<lparr>transcription_text := ''Could not understand audio''\<rparr>\<rparr>), w)
           | Inl (RequestError m) \<Rightarrow>
               (Inr results, log_warning (''Speech recognition error: '' @ m) w)
           | Inl e \<Rightarrow> (Inl e, w)))"

text \<open>
  \<^verbatim>\<open>if 'speech_recognizer' in self.models: with sr.AudioFile(...)\<close>: the attribute is looked
  up on whatever \<^verbatim>\<open>sr\<close> denotes.
\<close>

definition recognize_speech ::
  "sr_name \<Rightarrow> recognizer \<Rightarrow> bytes \<Rightarrow> audio_results \<Rightarrow> world \<Rightarrow> (exn + audio_results) \<times> world" where
  "recognize_speech sr rec audio_data results w =
     (case sr of
        SrUnbound \<Rightarrow>
          (Inl (UnboundLocalError ''local variable sr referenced before assignment''), w)
      | SrSampleRate n \<Rightarrow>
          (Inl (AttributeError ''int object has no attribute AudioFile''), w)
      | SrModule \<Rightarrow> transcribe rec audio_data results w)"

text \<open>The body of the inner \<^verbatim>\<open>try\<close>.\<close>

definition analyze_audio ::
  "env \<Rightarrow> bytes \<Rightarrow> audio_results \<Rightarrow> world \<Rightarrow> (exn + audio_results) \<times> world" where
  "analyze_audio E audio_data results w =
     (case extract_audio_features E audio_data results of
        Inl e \<Rightarrow> (Inl e, w)
      | Inr (r1, sr) \<Rightarrow>
          (case speech_recognizer E of
             None \<Rightarrow> (Inr r1, w)
           | Some rec \<Rightarrow> recognize_speech sr rec audio_data r1 w))"

text \<open>
  The temporary file is written, the inner \<^verbatim>\<open>try\<close> runs, and its \<^verbatim>\<open>finally\<close> deletes the
  file whether the body returned or raised.
\<close>

definition process_audio_body :: "env \<Rightarrow> bytes \<Rightarrow> world \<Rightarrow> (exn + audio_results) \<times> world" where
  "process_audio_body E audio_data w =
     (case now_timestamp w of
        (ts, w1) \<Rightarrow>
          (let temp_path = TempFile ''temp_audio_'' ts ''.wav'';
               w2 = write_file temp_path audio_data w1
           in case analyze_audio E audio_data default_audio_results w2 of
                (outcome, w3) \<Rightarrow> (outcome, unlink_if_exists temp_path w3)))"

definition process_audio :: "env \<Rightarrow> bytes \<Rightarrow> world \<Rightarrow> (exn + audio_results) \<times> world" where
  "process_audio E audio_data w =
     (case process_audio_body E audio_data w of
        (Inl e, w') \<Rightarrow> (Inl e, log_error (''Audio processing error: '' @ str_exn e) w')
      | (Inr results, w') \<Rightarrow> (Inr results, w'))"

subsection \<open>Video pipeline (\<^verbatim>\<open>process_video\<close>)\<close>

definition default_video_results :: video_results where
  "default_video_results =
     \<lparr>video_scenes = [], video_faces = [], audio = None,
      motion = \<lparr>intensity = 0, direction = [], camera_movement = ''static''\<rparr>,
      quality = \<lparr>resolution = [], frame_rate = 0, bitrate = 0, stability = 0\<rparr>\<rparr>"

text \<open>\<^verbatim>\<open>int(x)\<close> on a float: truncation towards zero.\<close>

definition py_int :: "real \<Rightarrow> int" where
  "py_int x = (if 0 \<le> x then \<lfloor>x\<rfloor> else \<lceil>x\<rceil>)"

text \<open>
  \<^verbatim>\<open>np.linspace(start, stop, num)\<close>: \<open>num\<close> evenly spaced values from \<open>start\<close> to \<open>stop\<close>, both
  included; the one value \<open>start\<close> when \<open>num\<close> is 1; \<^verbatim>\<open>ValueError\<close> when \<open>num\<close> is negative.
\<close>

definition np_linspace :: "real \<Rightarrow> real \<Rightarrow> int \<Rightarrow> exn + real list" where
  "np_linspace start stop num =
     (if num < 0 then Inl (ValueError ''Number of samples must be non-negative'')
      else if num = 1 then Inr [start]
      else Inr (map (\<lambda>i. start + real i * ((stop - start) / real (nat num - 1))) [0..<nat num]))"

text \<open>
  The audio branch, for a clip that has an audio track: the track is written beside the
  video file, read back, handed to \<^verbatim>\<open>process_audio\<close>, and the file is deleted after
  \<^verbatim>\<open>process_audio\<close> has returned. The deletion is an ordinary statement after the call, not
  part of a \<^verbatim>\<open>finally\<close>.
\<close>

definition extract_audio ::
  "env \<Rightarrow> path \<Rightarrow> write_outcome \<Rightarrow> world \<Rightarrow> (exn + audio_results) \<times> world" where
  "extract_audio E temp_path track w =
     (let audio_path = with_suffix temp_path ''.wav''
      in case track of
           WriteFailed e partial \<Rightarrow>
             (Inl e, case partial of None \<Rightarrow> w | Some written \<Rightarrow> write_file audio_path written w)
         | Written audio_data \<Rightarrow>
             (case process_audio E audio_data (write_file audio_path audio_data w) of
                (Inl e, w') \<Rightarrow> (Inl e, w')
              | (Inr audio_results, w') \<Rightarrow> (Inr audio_results, unlink audio_path w')))"

text \<open>
  The loop over the sample times; \<open>n\<close> is \<^verbatim>\<open>len(sample_times)\<close>. Nothing in the loop catches
  an exception of \<^verbatim>\<open>get_frame\<close> or of \<^verbatim>\<open>process_image\<close>.
\<close>

fun analyze_frames ::
  "env \<Rightarrow> clip \<Rightarrow> nat \<Rightarrow> real list \<Rightarrow> world \<Rightarrow> (exn + video_segment list) \<times> world" where
  "analyze_frames E c n [] w = (Inr [], w)"
| "analyze_frames E c n (t # ts) w =
     (case get_frame c t of
        Inl e \<Rightarrow> (Inl e, w)
      | Inr frame \<Rightarrow>
          (case process_image E (jpeg_encode E frame) w of
             (Inl e, w1) \<Rightarrow> (Inl e, w1)
           | (Inr frame_analysis, w1) \<Rightarrow>
               (case analyze_frames E c n ts w1 of
                  (Inl e, w2) \<Rightarrow> (Inl e, w2)
                | (Inr rest, w2) \<Rightarrow>
                    (Inr (\<lparr>segment_start = t,
                           segment_end = t + duration c / real n,
                           segment_description = description frame_analysis,
                           keyframes = [],
                           segment_objects = objects frame_analysis\<rparr> # rest), w2))))"

text \<open>Resolution and frame rate of the opened clip.\<close>

definition video_info :: "clip \<Rightarrow> video_results \<Rightarrow> video_results" where
  "video_info c results =
     results\<lparr>quality := (quality results)
       \<lparr>resolution := show_nat (clip_w c) @ ''x'' @ show_nat (clip_h c),
        frame_rate := fps c\<rparr>\<rparr>"

text \<open>\<^verbatim>\<open>if clip.audio is not None: ...\<close>. No handler surrounds the branch.\<close>

definition audio_branch ::
  "env \<Rightarrow> path \<Rightarrow> clip \<Rightarrow> video_results \<Rightarrow> world \<Rightarrow> (exn + video_results) \<times> world" where
  "audio_branch E temp_path c results w =
     (case clip_audio c of
        None \<Rightarrow> (Inr results, w)
      | Some track \<Rightarrow>
          (case extract_audio E temp_path track w of
             (Inl e, w1) \<Rightarrow> (Inl e, w1)
           | (Inr a, w1) \<Rightarrow> (Inr (results\<lparr>audio := Some a\<rparr>), w1)))"

text \<open>
  The sample times \<^verbatim>\<open>np.linspace(0, duration, min(10, int(duration)))\<close> and the loop
  over them.
\<close>

definition frame_branch ::
  "env \<Rightarrow> clip \<Rightarrow> video_results \<Rightarrow> world \<Rightarrow> (exn + video_results) \<times> world" where
  "frame_branch E c results w =
     (case np_linspace 0 (duration c) (min 10 (py_int (duration c))) of
        Inl e \<Rightarrow> (Inl e, w)
      | Inr sample_times \<Rightarrow>
          (case analyze_frames E c (length sample_times) sample_times w of
             (Inl e, w2) \<Rightarrow> (Inl e, w2)
           | (Inr segments, w2) \<Rightarrow> (Inr (results\<lparr>video_scenes := segments\<rparr>), w2)))"

text \<open>The body of the inner \<^verbatim>\<open>try\<close>: open the clip, then the two branches in order.\<close>

definition analyze_video ::
  "env \<Rightarrow> path \<Rightarrow> bytes \<Rightarrow> video_results \<Rightarrow> world \<Rightarrow> (exn + video_results) \<times> world" where
  "analyze_video E temp_path video_data results w =
     (case VideoFileClip E of
        None \<Rightarrow> (Inr results, w)
      | Some open_clip \<Rightarrow>
          (case open_clip video_data of
             Inl e \<Rightarrow> (Inl e, w)
           | Inr c \<Rightarrow>
               (case audio_branch E temp_path c (video_info c results) w of
                  (Inl e, w1) \<Rightarrow> (Inl e, w1)
                | (Inr r2, w1) \<Rightarrow> frame_branch E c r2 w1)))"

text \<open>
  The temporary file is written, the inner \<^verbatim>\<open>try\<close> runs, and its \<^verbatim>\<open>finally\<close> deletes the
  video file whether the body returned or raised.
\<close>

definition process_video_body :: "env \<Rightarrow> bytes \<Rightarrow> world \<Rightarrow> (exn + video_results) \<times> world" where
  "process_video_body E video_data w =
     (case now_timestamp w of
        (ts, w1) \<Rightarrow>
          (let temp_path = TempFile ''temp_video_'' ts ''.mp4'';
               w2 = write_file temp_path video_data w1
           in case analyze_video E temp_path video_data default_video_results w2 of
                (outcome, w3) \<Rightarrow> (outcome, unlink_if_exists temp_path w3)))"

definition process_video :: "env \<Rightarrow> bytes \<Rightarrow> world \<Rightarrow> (exn + video_results) \<times> world" where
  "process_video E video_data w =
     (case process_video_body E video_data w of
        (Inl e, w') \<Rightarrow> (Inl e, log_error (''Video processing error: '' @ str_exn e) w')
      | (Inr results, w') \<Rightarrow> (Inr results, w'))"

subsection \<open>Endpoints\<close>

record 'a ProcessingResponse =
  success :: bool
  results :: "'a option"
  error :: "string option"

text \<open>
  Each endpoint is \<^verbatim>\<open>try: results = await processor.process_X(...); return
  ProcessingResponse(success=True, results=results) except Exception as e: return
  ProcessingResponse(success=False, error=str(e))\<close>.
\<close>

definition respond :: "(exn + 'a) \<times> world \<Rightarrow> 'a ProcessingResponse \<times> world" where
  "respond outcome =
     (case outcome of
        (Inr r, w) \<Rightarrow> (\<lparr>success = True, results = Some r, error = None\<rparr>, w)
      | (Inl e, w) \<Rightarrow> (\<lparr>success = False, results = None, error = Some (str_exn e)\<rparr>, w))"

definition process_text_endpoint ::
  "env \<Rightarrow> string \<Rightarrow> world \<Rightarrow> text_results ProcessingResponse \<times> world" where
  "process_text_endpoint E txt w = respond (process_text E txt w)"

definition process_image_endpoint ::
  "env \<Rightarrow> bytes \<Rightarrow> world \<Rightarrow> image_results ProcessingResponse \<times> world" where
  "process_image_endpoint E image_data w = respond (process_image E image_data w)"

definition process_audio_endpoint ::
  "env \<Rightarrow> bytes \<Rightarrow> world \<Rightarrow> audio_results ProcessingResponse \<times> world" where
  "process_audio_endpoint E audio_data w = respond (process_audio E audio_data w)"

definition process_video_endpoint ::
  "env \<Rightarrow> bytes \<Rightarrow> world \<Rightarrow> video_results ProcessingResponse \<times> world" where
  "process_video_endpoint E video_data w = respond (process_video E video_data w)"

subsection \<open>Failing capabilities\<close>


subsection \<open>Concrete processors and inputs\<close>

text \<open>A stable sort of the indices by their counts: one sort that \<^verbatim>\<open>np.argsort\<close> may be.\<close>

definition stable_argsort :: "nat list \<Rightarrow> nat list" where
  "stable_argsort counts = sort_key (\<lambda>i. counts ! i) [0..<length counts]"

definition empty_world :: world where
  "empty_world = \<lparr>files = Map.empty, clock = 0, log = []\<rparr>"

text \<open>A 2 by 2 image, in the channel order of OpenCV (blue, green, red).\<close>

definition sample_image :: image where
  "sample_image = \<lparr>height = 2, width = 2,
     pixels = [(200, 180, 40), (200, 180, 40), (0, 0, 255), (10, 20, 30)]\<rparr>"

text \<open>
  A processor with no model loaded and no optional library; the bytes \<open>[255, 216]\<close> decode to
  \<open>sample_image\<close> and nothing else decodes.
\<close>

definition no_models :: env where
  "no_models =
     \<lparr>sentiment_model = None, ner_model = None, summarization_model = None, nlp_model = None,
      embeddings_model = None, face_cascade = None, speech_recognizer = None,
      pytesseract = None, librosa = None, VideoFileClip = None,
      imdecode = (\<lambda>data. if data = [255, 216] then Some sample_image else None),
      jpeg_encode = (\<lambda>img. [255, 216]),
      argsort = stable_argsort\<rparr>"

definition sample_image_results :: image_results where
  "sample_image_results =
     \<lparr>objects = [], faces = [], image_text = [],
      scenes = [\<lparr>name = ''indoor'', scene_confidence = 0.6\<rparr>],
      colors = [\<lparr>hex = ''#28b4c8'', percentage = 50\<rparr>, \<lparr>hex = ''#ff0000'', percentage = 25\<rparr>,
                \<lparr>hex = ''#1e140a'', percentage = 25\<rparr>],
      landmarks = [], safety_labels = [],
      description = ''Image with indoor scene'', tags = {''indoor''}\<rparr>"


text \<open>
  The envelope as the data model words it: exactly one of payload and error is set, and
  the success flag says which.
\<close>

definition exactly_one :: "'a ProcessingResponse \<Rightarrow> bool" where
  "exactly_one resp =
     ((results resp = None) \<noteq> (error resp = None) \<and> success resp = (results resp \<noteq> None))"

text \<open>A clip of three and a half seconds without an audio track; every frame is \<open>sample_image\<close>.\<close>

definition sample_clip :: clip where
  "sample_clip = \<lparr>clip_w = 640, clip_h = 480, fps = 30, duration = 7 / 2, clip_audio = None,
                   get_frame = (\<lambda>t. Inr sample_image)\<rparr>"

definition silent_video :: env where
  "silent_video = no_models\<lparr>VideoFileClip := Some (\<lambda>video_data. Inr sample_clip)\<rparr>"

text \<open>
  The clip has an audio track, librosa is the only audio capability and raises when it
  loads the extracted track.
\<close>

definition video_librosa_fails :: env where
  "video_librosa_fails =
     no_models\<lparr>VideoFileClip := Some (\<lambda>video_data. Inr (sample_clip\<lparr>clip_audio := Some (Written [7, 7])\<rparr>)),
               librosa := Some (\<lambda>audio_data. Inl (RuntimeError ''cannot decode audio''))\<rparr>"

text \<open>Three recognisers: one understands, one does not, one cannot reach the service.\<close>

definition hearing_recognizer :: recognizer where
  "hearing_recognizer = \<lparr>record_source = (\<lambda>d. Inr d), recognize_google = (\<lambda>a. Inr ''hello'')\<rparr>"



text \<open>The clip has an audio track; librosa and the recogniser are loaded and both work.\<close>

definition video_all_loaded :: env where
  "video_all_loaded =
     no_models\<lparr>VideoFileClip := Some (\<lambda>video_data. Inr (sample_clip\<lparr>clip_audio := Some (Written [7, 7])\<rparr>)),
               librosa := Some (\<lambda>audio_data. Inr \<lparr>sample_rate = 22050, mean_abs = 1 / 10,
                                                    mean_pitch = None, beat_tempo = 120\<rparr>),
               speech_recognizer := Some hearing_recognizer\<rparr>"

text \<open>A three-class sentiment model whose labels are written in lower case.\<close>

definition three_class_sentiment :: env where
  "three_class_sentiment =
     no_models\<lparr>sentiment_model := Some (\<lambda>txt. Inr [[(''negative'', 1 / 100), (''neutral'', 2 / 100),
                                                     (''positive'', 97 / 100)]])\<rparr>"


section \<open>Properties\<close>

subsection \<open>Evaluation of the image pipeline\<close>

lemmas image_defs = process_image_def process_image_body_def detect_faces_def extract_text_def
  color_analysis_def np_unique_def top_indices_def cvtColor_BGR2RGB_def fmt_02x_def to_hex.simps
  digit_char_def classify_scene_def avg_color_def np_mean_def generate_description_def
  description_parts_def generate_tags_def default_image_results_def

lemma process_image_sample:
  "process_image no_models [255, 216] empty_world = (Inr sample_image_results, empty_world)"
  by (simp add: image_defs no_models_def sample_image_def stable_argsort_def
      sample_image_results_def Let_def)


subsection \<open>What a returned image result is made of\<close>

lemma process_image_Inr:
  assumes "process_image E image_data w = (Inr r, w')"
  obtains img r1 where "imdecode E image_data = Some img"
    and "detect_faces E img default_image_results = Inr r1"
    and "r = (let r2 = fst (extract_text E img r1 w);
                  r3 = r2\<lparr>colors := color_analysis (argsort E) img\<rparr>;
                  r4 = r3\<lparr>scenes := scenes r3 @ [classify_scene (cvtColor_BGR2RGB img)]\<rparr>;
                  r5 = r4\<lparr>description := generate_description r4\<rparr>
              in r5\<lparr>tags := generate_tags r5\<rparr>)"
  using assms
  by (auto simp: process_image_def process_image_body_def Let_def
      split: option.splits sum.splits prod.splits)

lemma scenes_detect_faces:
  "detect_faces E img r0 = Inr r1 \<Longrightarrow> scenes r1 = scenes r0"
  by (auto simp: detect_faces_def split: option.splits sum.splits)

lemma scenes_extract_text:
  "scenes (fst (extract_text E img r1 w)) = scenes r1"
  by (auto simp: extract_text_def split: option.splits sum.splits)

lemma process_image_scenes:
  assumes "process_image E image_data w = (Inr r, w')" and "imdecode E image_data = Some img"
  shows "scenes r = [classify_scene (cvtColor_BGR2RGB img)]"
proof -
  from assms(1) obtain img' r1 where d: "imdecode E image_data = Some img'"
    and f: "detect_faces E img' default_image_results = Inr r1"
    and r: "r = (let r2 = fst (extract_text E img' r1 w);
                  r3 = r2\<lparr>colors := color_analysis (argsort E) img'\<rparr>;
                  r4 = r3\<lparr>scenes := scenes r3 @ [classify_scene (cvtColor_BGR2RGB img')]\<rparr>;
                  r5 = r4\<lparr>description := generate_description r4\<rparr>
              in r5\<lparr>tags := generate_tags r5\<rparr>)"
    by (rule process_image_Inr)
  from d assms(2) have "img' = img" by simp
  moreover have "scenes r1 = []"
    using scenes_detect_faces [OF f] by (simp add: default_image_results_def)
  ultimately show ?thesis
    using r by (simp add: Let_def scenes_extract_text)
qed

lemma process_image_colors:
  assumes "process_image E image_data w = (Inr r, w')" and "imdecode E image_data = Some img"
  shows "colors r = color_analysis (argsort E) img"
proof -
  from assms(1) obtain img' r1 where d: "imdecode E image_data = Some img'"
    and r: "r = (let r2 = fst (extract_text E img' r1 w);
                  r3 = r2\<lparr>colors := color_analysis (argsort E) img'\<rparr>;
                  r4 = r3\<lparr>scenes := scenes r3 @ [classify_scene (cvtColor_BGR2RGB img')]\<rparr>;
                  r5 = r4\<lparr>description := generate_description r4\<rparr>
              in r5\<lparr>tags := generate_tags r5\<rparr>)"
    by (rule process_image_Inr)
  from d assms(2) have "img' = img" by simp
  then show ?thesis using r by (simp add: Let_def)
qed

text \<open>
  A decoded image always gets a result unless the face detector raises: face detection is
  the one call of the image pipeline outside a handler of its own.
\<close>

lemma process_image_returns:
  assumes "imdecode E image_data = Some img"
    and "\<not> (\<exists>detect e. face_cascade E = Some detect \<and> detect img = Inl e)"
  shows "\<exists>r w'. process_image E image_data w = (Inr r, w')"
  using assms
  by (auto simp: process_image_def process_image_body_def detect_faces_def Let_def
      split: option.splits sum.splits prod.splits)

subsection \<open>Colour analysis\<close>

lemma np_unique_props:
  assumes "np_unique ps = (us, counts)"
  shows "distinct us" and "set us = set ps" and "counts = map (count_list ps) us"
    and "length counts = length us" and "length us = card (set ps)"
proof -
  from assms have us: "us = sort (remdups ps)" and c: "counts = map (count_list ps) us"
    by (auto simp: np_unique_def Let_def)
  show "distinct us" by (simp add: us)
  show "set us = set ps" by (simp add: us)
  show "counts = map (count_list ps) us" by (rule c)
  show "length counts = length us" by (simp add: c)
  show "length us = card (set ps)" by (simp add: us length_remdups_card_conv)
qed

lemma argsort_perm:
  assumes "mset idx = mset [0..<n]"
  shows "distinct idx" and "set idx = {0..<n}" and "length idx = n"
proof -
  show "distinct idx"
    using assms by (metis distinct_upt mset_eq_imp_distinct_iff)
  show "set idx = {0..<n}"
    using assms by (metis mset_eq_setD set_upt)
  show "length idx = n"
    using assms by (metis length_upt mset_eq_length minus_nat.diff_0)
qed

text \<open>
  The last five indices of an ascending sort, reversed: at most five, without repetition,
  descending by count, and no index left out has a greater count than one taken.
\<close>

lemma top_indices_props:
  assumes "mset (srt counts) = mset [0..<length counts]"
    and "sorted (map ((!) counts) (srt counts))"
  shows "distinct (top_indices srt counts)"
    and "set (top_indices srt counts) \<subseteq> {0..<length counts}"
    and "length (top_indices srt counts) = min 5 (length counts)"
    and "sorted (rev (map ((!) counts) (top_indices srt counts)))"
    and "\<forall>j<length counts. j \<notin> set (top_indices srt counts) \<longrightarrow>
           (\<forall>i\<in>set (top_indices srt counts). counts ! j \<le> counts ! i)"
proof -
  define idx where "idx = srt counts"
  define k where "k = length idx - 5"
  have top: "top_indices srt counts = rev (drop k idx)"
    by (simp add: top_indices_def idx_def k_def Let_def)
  have d: "distinct idx" and s: "set idx = {0..<length counts}" and l: "length idx = length counts"
    using argsort_perm [OF assms(1)] by (simp_all add: idx_def)
  show "distinct (top_indices srt counts)"
    using d by (simp add: top)
  show "set (top_indices srt counts) \<subseteq> {0..<length counts}"
    using s set_drop_subset [of k idx] by (simp add: top)
  show "length (top_indices srt counts) = min 5 (length counts)"
    using l by (simp add: top k_def)
  have srt: "sorted (map ((!) counts) (take k idx) @ map ((!) counts) (drop k idx))"
    using assms(2) by (metis append_take_drop_id idx_def map_append)
  show "sorted (rev (map ((!) counts) (top_indices srt counts)))"
    using srt by (simp add: top rev_map sorted_append)
  show "\<forall>j<length counts. j \<notin> set (top_indices srt counts) \<longrightarrow>
           (\<forall>i\<in>set (top_indices srt counts). counts ! j \<le> counts ! i)"
  proof (intro allI impI ballI)
    fix j i
    assume j: "j < length counts" and nj: "j \<notin> set (top_indices srt counts)"
      and i: "i \<in> set (top_indices srt counts)"
    from j s have "j \<in> set (take k idx) \<union> set (drop k idx)"
      by (metis append_take_drop_id atLeastLessThan_iff set_append zero_le)
    with nj have "j \<in> set (take k idx)" by (simp add: top)
    moreover from i have "i \<in> set (drop k idx)" by (simp add: top)
    ultimately show "counts ! j \<le> counts ! i"
      using srt by (auto simp: sorted_append)
  qed
qed

lemma color_analysis_unfold:
  assumes "np_unique (pixels (cvtColor_BGR2RGB img)) = (us, counts)"
  shows "color_analysis srt img =
     map (\<lambda>i. case us ! i of
                 (r, g, b) \<Rightarrow> \<lparr>hex = ''#'' @ fmt_02x r @ fmt_02x g @ fmt_02x b,
                               percentage = map (\<lambda>c. real c / real (height img * width img) * 100) counts ! i\<rparr>)
         (top_indices srt counts)"
  using assms by (simp add: color_analysis_def Let_def)

lemma stable_argsort_ok:
  "mset (stable_argsort counts) = mset [0..<length counts]
     \<and> sorted (map ((!) counts) (stable_argsort counts))"
  by (simp add: stable_argsort_def)

text \<open>
  Claim C7. Colour analysis is a function of the decoded image alone: two runs of the image
  pipeline on the same decoded image return the same colours, whatever the models, the
  world and the other analyses are. Its result lists the distinct pixel values \<open>cs\<close> of the
  image that are most frequent, at most five of them, in descending order of frequency,
  each as its hex triplet with its share of \<open>height * width\<close> pixels in percent. The sort
  \<open>srt\<close> is any function that sorts indices by count, as \<^verbatim>\<open>np.argsort\<close> does.
\<close>

theorem color_analysis_top_five:
  assumes "\<forall>counts. mset (srt counts) = mset [0..<length counts]
             \<and> sorted (map ((!) counts) (srt counts))"
  shows "(\<exists>cs. color_analysis srt img =
            map (\<lambda>(r, g, b).
                   \<lparr>hex = ''#'' @ fmt_02x r @ fmt_02x g @ fmt_02x b,
                    percentage = real (count_list (pixels (cvtColor_BGR2RGB img)) (r, g, b))
                                   / real (height img * width img) * 100\<rparr>) cs
          \<and> length cs = min 5 (card (set (pixels (cvtColor_BGR2RGB img))))
          \<and> distinct cs
          \<and> set cs \<subseteq> set (pixels (cvtColor_BGR2RGB img))
          \<and> sorted (rev (map (count_list (pixels (cvtColor_BGR2RGB img))) cs))
          \<and> (\<forall>p\<in>set (pixels (cvtColor_BGR2RGB img)) - set cs. \<forall>c\<in>set cs.
                count_list (pixels (cvtColor_BGR2RGB img)) p
                  \<le> count_list (pixels (cvtColor_BGR2RGB img)) c))
     \<and> length (color_analysis srt img) \<le> 5
     \<and> (\<forall>E1 E2 d1 d2 w1 w2 r1 r2 v1 v2.
           argsort E1 = srt \<and> argsort E2 = srt
           \<and> imdecode E1 d1 = Some img \<and> imdecode E2 d2 = Some img
           \<and> process_image E1 d1 w1 = (Inr r1, v1) \<and> process_image E2 d2 w2 = (Inr r2, v2)
           \<longrightarrow> colors r1 = color_analysis srt img \<and> colors r2 = colors r1)"
proof (intro conjI)
  define P where "P = pixels (cvtColor_BGR2RGB img)"
  obtain us counts where u: "np_unique P = (us, counts)" by (cases "np_unique P")
  note up = np_unique_props [OF u]
  define top where "top = top_indices srt counts"
  from assms have a1: "mset (srt counts) = mset [0..<length counts]"
    and a2: "sorted (map ((!) counts) (srt counts))" by simp_all
  note tp = top_indices_props [of srt counts, OF a1 a2, folded top_def]
  have in_range: "i < length us" if "i \<in> set top" for i
    using that tp(2) up(4) by auto
  have cnt: "counts ! i = count_list P (us ! i)" if "i \<in> set top" for i
    using in_range [OF that] by (simp add: up(3))
  define cs where "cs = map ((!) us) top"
  have eq: "color_analysis srt img =
            map (\<lambda>(r, g, b).
                   \<lparr>hex = ''#'' @ fmt_02x r @ fmt_02x g @ fmt_02x b,
                    percentage = real (count_list P (r, g, b))
                                   / real (height img * width img) * 100\<rparr>) cs"
    unfolding color_analysis_unfold [OF u [unfolded P_def]] cs_def top_def [symmetric] map_map
  proof (rule map_cong [OF refl])
    fix i assume i: "i \<in> set top"
    then have "i < length counts" using in_range [OF i] up(4) by simp
    then show "(case us ! i of
                 (r, g, b) \<Rightarrow> \<lparr>hex = ''#'' @ fmt_02x r @ fmt_02x g @ fmt_02x b,
                               percentage = map (\<lambda>c. real c / real (height img * width img) * 100) counts ! i\<rparr>)
          = ((\<lambda>(r, g, b).
                   \<lparr>hex = ''#'' @ fmt_02x r @ fmt_02x g @ fmt_02x b,
                    percentage = real (count_list P (r, g, b))
                                   / real (height img * width img) * 100\<rparr>) \<circ> (!) us) i"
      using cnt [OF i] by (cases "us ! i") simp
  qed
  have len: "length cs = min 5 (card (set P))"
    using tp(3) up(4) up(5) by (simp add: cs_def)
  have dist: "distinct cs"
    unfolding cs_def distinct_map
  proof
    show "distinct top" by (rule tp(1))
    show "inj_on ((!) us) (set top)"
      using up(1) in_range by (auto simp: inj_on_def nth_eq_iff_index_eq)
  qed
  have sub: "set cs \<subseteq> set P"
    using in_range up(2) by (auto simp: cs_def)
  have m: "map (count_list P) cs = map ((!) counts) top"
    using cnt by (simp add: cs_def)
  have srt: "sorted (rev (map (count_list P) cs))"
    using tp(4) by (simp add: m)
  have best: "\<forall>p\<in>set P - set cs. \<forall>c\<in>set cs. count_list P p \<le> count_list P c"
  proof (intro ballI)
    fix p c assume p: "p \<in> set P - set cs" and c: "c \<in> set cs"
    from p up(2) have "p \<in> set us" by simp
    then obtain j where j: "j < length us" "us ! j = p"
      unfolding in_set_conv_nth by blast
    from c obtain i where i: "i \<in> set top" "c = us ! i" by (auto simp: cs_def)
    have "j \<notin> set top" using p j(2) by (auto simp: cs_def)
    then have "counts ! j \<le> counts ! i"
      using tp(5) j(1) up(4) i(1) by auto
    moreover have "counts ! j = count_list P p" using j by (simp add: up(3))
    ultimately show "count_list P p \<le> count_list P c"
      using cnt [OF i(1)] i(2) by simp
  qed
  show "\<exists>cs. color_analysis srt img =
            map (\<lambda>(r, g, b).
                   \<lparr>hex = ''#'' @ fmt_02x r @ fmt_02x g @ fmt_02x b,
                    percentage = real (count_list (pixels (cvtColor_BGR2RGB img)) (r, g, b))
                                   / real (height img * width img) * 100\<rparr>) cs
          \<and> length cs = min 5 (card (set (pixels (cvtColor_BGR2RGB img))))
          \<and> distinct cs
          \<and> set cs \<subseteq> set (pixels (cvtColor_BGR2RGB img))
          \<and> sorted (rev (map (count_list (pixels (cvtColor_BGR2RGB img))) cs))
          \<and> (\<forall>p\<in>set (pixels (cvtColor_BGR2RGB img)) - set cs. \<forall>c\<in>set cs.
                count_list (pixels (cvtColor_BGR2RGB img)) p
                  \<le> count_list (pixels (cvtColor_BGR2RGB img)) c)"
    using eq len dist sub srt best unfolding P_def by blast
  show "length (color_analysis srt img) \<le> 5"
    by (simp add: eq len)
next
  show "\<forall>E1 E2 d1 d2 w1 w2 r1 r2 v1 v2.
           argsort E1 = srt \<and> argsort E2 = srt
           \<and> imdecode E1 d1 = Some img \<and> imdecode E2 d2 = Some img
           \<and> process_image E1 d1 w1 = (Inr r1, v1) \<and> process_image E2 d2 w2 = (Inr r2, v2)
           \<longrightarrow> colors r1 = color_analysis srt img \<and> colors r2 = colors r1"
    using process_image_colors by metis
qed

theorem color_analysis_top_five_witness:
  "(\<forall>counts. mset (stable_argsort counts) = mset [0..<length counts]
       \<and> sorted (map ((!) counts) (stable_argsort counts)))
   \<and> color_analysis stable_argsort sample_image =
       [\<lparr>hex = ''#28b4c8'', percentage = 50\<rparr>, \<lparr>hex = ''#ff0000'', percentage = 25\<rparr>,
        \<lparr>hex = ''#1e140a'', percentage = 25\<rparr>]
   \<and> length (color_analysis stable_argsort sample_image) \<le> 5"
proof -
  have h: "\<forall>counts. mset (stable_argsort counts) = mset [0..<length counts]
       \<and> sorted (map ((!) counts) (stable_argsort counts))"
    using stable_argsort_ok by blast
  have v: "color_analysis stable_argsort sample_image =
       [\<lparr>hex = ''#28b4c8'', percentage = 50\<rparr>, \<lparr>hex = ''#ff0000'', percentage = 25\<rparr>,
        \<lparr>hex = ''#1e140a'', percentage = 25\<rparr>]"
    by (simp add: image_defs sample_image_def stable_argsort_def Let_def)
  from color_analysis_top_five [OF h, of sample_image]
  have "length (color_analysis stable_argsort sample_image) \<le> 5" by blast
  with h v show ?thesis by blast
qed

subsection \<open>Scene heuristic\<close>




subsection \<open>Description and tags\<close>

lemma join_snoc: "\<exists>pre. join sep (ps @ [x]) = pre @ x"
proof (induction ps)
  case Nil
  show ?case by simp
next
  case (Cons p ps)
  then obtain pre where pre: "join sep (ps @ [x]) = pre @ x" by blast
  show ?case
  proof (cases ps)
    case Nil
    then show ?thesis by simp
  next
    case (Cons q qs)
    then have "join sep ((p # ps) @ [x]) = (p @ sep @ pre) @ x"
      using pre by simp
    then show ?thesis by blast
  qed
qed

lemma description_of_scene:
  assumes "scenes r4 = [s]"
  shows "\<exists>pre. generate_description r4 = ''Image with '' @ pre @ name s @ '' scene''"
proof -
  obtain front where parts: "description_parts r4 = front @ [name s @ '' scene'']"
    using assms by (simp add: description_parts_def)
  obtain pre where "join '', '' (front @ [name s @ '' scene'']) = pre @ name s @ '' scene''"
    using join_snoc by blast
  then show ?thesis
    by (simp add: generate_description_def parts)
qed

text \<open>
  Claim C10. Every result the image pipeline returns (it returns one for every image that
  decodes, unless face detection raises) has exactly one scene; its description is
  ``Image with ...'' ending in the name of that scene and the word ``scene'', never the
  fallback ``Image analysis completed''; and its tags hold the scene name, so they are not
  empty.
\<close>

theorem image_description:
  assumes "process_image E image_data w = (Inr r, w')"
  shows "length (scenes r) = 1
     \<and> description r \<noteq> ''Image analysis completed''
     \<and> (\<exists>pre. description r = ''Image with '' @ pre @ name (hd (scenes r)) @ '' scene'')
     \<and> tags r \<noteq> {} \<and> name (hd (scenes r)) \<in> tags r"
proof -
  from assms obtain img r1 where d: "imdecode E image_data = Some img"
    and r: "r = (let r2 = fst (extract_text E img r1 w);
                  r3 = r2\<lparr>colors := color_analysis (argsort E) img\<rparr>;
                  r4 = r3\<lparr>scenes := scenes r3 @ [classify_scene (cvtColor_BGR2RGB img)]\<rparr>;
                  r5 = r4\<lparr>description := generate_description r4\<rparr>
              in r5\<lparr>tags := generate_tags r5\<rparr>)"
    by (rule process_image_Inr)
  define s where "s = classify_scene (cvtColor_BGR2RGB img)"
  define r4 where "r4 = (fst (extract_text E img r1 w))
     \<lparr>colors := color_analysis (argsort E) img,
      scenes := scenes (fst (extract_text E img r1 w)) @ [s]\<rparr>"
  have sc: "scenes r = [s]"
    using process_image_scenes [OF assms d] by (simp add: s_def)
  have sc4: "scenes r4 = [s]"
    using sc r by (simp add: r4_def Let_def s_def)
  have descr: "description r = generate_description r4"
    using r by (simp add: Let_def r4_def s_def)
  have tg: "tags r = generate_tags (r4\<lparr>description := generate_description r4\<rparr>)"
    using r by (simp add: Let_def r4_def s_def)
  obtain pre where pre: "description r = ''Image with '' @ pre @ name s @ '' scene''"
    using description_of_scene [OF sc4] descr by auto
  have "name s \<in> tags r"
    using sc4 by (simp add: tg generate_tags_def)
  then show ?thesis
    using sc pre by auto
qed

theorem image_description_witness:
  "process_image no_models [255, 216] empty_world = (Inr sample_image_results, empty_world)
   \<and> length (scenes sample_image_results) = 1
   \<and> description sample_image_results = ''Image with indoor scene''
   \<and> description sample_image_results \<noteq> ''Image analysis completed''
   \<and> tags sample_image_results \<noteq> {}"
  using process_image_sample image_description [OF process_image_sample]
  by (simp add: sample_image_results_def)

subsection \<open>Failure of a text capability\<close>







lemma respond_success: "success (fst (respond p)) = (\<exists>r. fst p = Inr r)"
  by (cases p; cases "fst p") (simp_all add: respond_def)






lemmas text_defs = process_text_def process_text_body_def analyze_sentiment_def
  recognize_entities_def summarize_def extract_keywords_def generate_embeddings_def
  default_text_results_def



subsection \<open>Sentiment\<close>

lemma max_by_mem: "max_by key x xs \<in> set (x # xs)"
  by (induction xs arbitrary: x) auto

lemma analyze_sentiment_cases:
  assumes "analyze_sentiment E txt r0 = Inr r"
  obtains (unchanged) "r = r0"
    | (scored) classify x xs others where "sentiment_model E = Some classify"
        "classify txt = Inr ((x # xs) # others)"
        "r = r0\<lparr>sentiment :=
               \<lparr>score = snd (max_by snd x xs) * (if fst (max_by snd x xs) = ''POSITIVE'' then 1 else - 1),
                label = lower (fst (max_by snd x xs)),
                confidence = snd (max_by snd x xs)\<rparr>\<rparr>"
proof (cases "sentiment_model E")
  case None
  with assms have "r = r0" by (simp add: analyze_sentiment_def)
  then show ?thesis by (rule unchanged)
next
  case (Some classify)
  show ?thesis
  proof (cases "classify txt")
    case (Inl e)
    with assms Some show ?thesis by (simp add: analyze_sentiment_def)
  next
    case (Inr sentiment_results)
    show ?thesis
    proof (cases sentiment_results)
      case Nil
      with assms Some Inr have "r = r0" by (simp add: analyze_sentiment_def)
      then show ?thesis by (rule unchanged)
    next
      case (Cons first others)
      show ?thesis
      proof (cases first)
        case Nil
        with assms Some Inr Cons have "r = r0" by (simp add: analyze_sentiment_def)
        then show ?thesis by (rule unchanged)
      next
        case c: (Cons x xs)
        with assms Some Inr Cons show ?thesis
          by (intro scored [of classify x xs others]) (simp_all add: analyze_sentiment_def Let_def)
      qed
    qed
  qed
qed

text \<open>
  With classifier scores between 0 and 1 the returned score lies between -1 and 1 and the
  confidence between 0 and 1; without a classifier both are 0.
\<close>

lemma sentiment_in_range:
  assumes "analyze_sentiment E txt (default_text_results txt) = Inr r"
    and "\<And>classify classes c lab s. sentiment_model E = Some classify \<Longrightarrow>
           classify txt = Inr classes \<Longrightarrow> c \<in> set classes \<Longrightarrow> (lab, s) \<in> set c \<Longrightarrow>
           0 \<le> s \<and> s \<le> 1"
  shows "- 1 \<le> score (sentiment r) \<and> score (sentiment r) \<le> 1
     \<and> 0 \<le> confidence (sentiment r) \<and> confidence (sentiment r) \<le> 1"
  using assms(1)
proof (cases rule: analyze_sentiment_cases)
  case unchanged
  then show ?thesis by (simp add: default_text_results_def)
next
  case (scored classify x xs others)
  define best where "best = max_by snd x xs"
  have "best \<in> set (x # xs)" unfolding best_def by (rule max_by_mem)
  then have "0 \<le> snd best \<and> snd best \<le> 1"
    using assms(2) [OF scored(1) scored(2), of "x # xs" "fst best" "snd best"] by simp
  then show ?thesis
    using scored(3) by (simp add: best_def)
qed

text \<open>
  The sign of the score comes from the comparison of the label with the one spelling
  \<^verbatim>\<open>'POSITIVE'\<close>: with that spelling the score is positive.
\<close>

lemma upper_case_positive:
  assumes "sentiment_model E = Some classify"
    and "classify txt = Inr ([(''POSITIVE'', s)] # others)" and "0 < s"
    and "analyze_sentiment E txt r0 = Inr r"
  shows "label (sentiment r) = ''positive'' \<and> 0 < score (sentiment r)"
proof -
  have "lower ''POSITIVE'' = ''positive''" by code_simp
  then show ?thesis
    using assms by (auto simp: analyze_sentiment_def)
qed

text \<open>
  Claim C6. The claim asks for label ``positive'' and a score above 0 whenever the top
  class of the classifier is the positive one. The source lower-cases the label it returns
  and takes the sign from the comparison with \<^verbatim>\<open>'POSITIVE'\<close> in upper case: for a classifier
  whose labels are ``negative'', ``neutral'' and ``positive'', the text ``I love this!''
  with top class ``positive'' at 0.97 gets the label ``positive'' and the score -0.97.
\<close>

theorem positive_label_negative_score:
  "map_sum id sentiment (fst (process_text three_class_sentiment ''I love this!'' empty_world))
     = Inr \<lparr>score = - (97 / 100), label = ''positive'', confidence = 97 / 100\<rparr>"
  by (simp add: text_defs three_class_sentiment_def no_models_def lower_def lower_char_def
      Let_def)


subsection \<open>The world after the audio and image pipelines\<close>

lemma files_log [simp]:
  "files (log_warning m w) = files w" "files (log_error m w) = files w"
  "clock (log_warning m w) = clock w" "clock (log_error m w) = clock w"
  by (simp_all add: log_warning_def log_error_def)

lemma transcribe_world:
  "files (snd (transcribe rec d r w)) = files w"
  "clock (snd (transcribe rec d r w)) = clock w"
  by (auto simp: transcribe_def split: sum.splits exn.splits)

lemma transcribe_outcome:
  "fst (transcribe rec d r w) = fst (transcribe rec d r w')"
  by (auto simp: transcribe_def split: sum.splits exn.splits)

lemma analyze_audio_world:
  "files (snd (analyze_audio E d r w)) = files w"
  "clock (snd (analyze_audio E d r w)) = clock w"
  by (auto simp: analyze_audio_def recognize_speech_def transcribe_world
      split: sum.splits option.splits prod.splits sr_name.splits)

lemma analyze_audio_outcome:
  "fst (analyze_audio E d r w) = fst (analyze_audio E d r w')"
  using transcribe_outcome
  by (auto simp: analyze_audio_def recognize_speech_def
      split: sum.splits option.splits prod.splits sr_name.splits)

lemma process_audio_body_outcome:
  "fst (process_audio_body E d w) = fst (process_audio_body E d w')"
proof -
  have "fst (process_audio_body E d v)
      = fst (analyze_audio E d default_audio_results v)" for v
    using analyze_audio_outcome [of E d default_audio_results
        "write_file (TempFile ''temp_audio_'' (clock v) ''.wav'') d (v\<lparr>clock := Suc (clock v)\<rparr>)" v]
    by (auto simp: process_audio_body_def now_timestamp_def Let_def split: prod.splits)
  then show ?thesis
    using analyze_audio_outcome [of E d default_audio_results w w'] by simp
qed

lemma process_audio_outcome:
  "fst (process_audio E d w) = fst (process_audio E d w')"
proof -
  have "fst (process_audio E d v) = fst (process_audio_body E d v)" for v
    by (simp add: process_audio_def split: prod.splits sum.splits)
  then show ?thesis
    using process_audio_body_outcome [of E d w w'] by simp
qed

text \<open>
  The temporary file of \<^verbatim>\<open>process_audio\<close> is gone afterwards, whether it returned or raised,
  and nothing else in the scratch directory has changed.
\<close>

lemma process_audio_body_files:
  "files (snd (process_audio_body E d w))
     = (files w)(TempFile ''temp_audio_'' (clock w) ''.wav'' := None)"
proof -
  define p where "p = TempFile ''temp_audio_'' (clock w) ''.wav''"
  define w2 where "w2 = write_file p d (w\<lparr>clock := Suc (clock w)\<rparr>)"
  obtain out w3 where a: "analyze_audio E d default_audio_results w2 = (out, w3)"
    by (cases "analyze_audio E d default_audio_results w2")
  have f3: "files w3 = (files w)(p \<mapsto> d)"
    using analyze_audio_world(1) [of E d default_audio_results w2] a
    by (simp add: w2_def write_file_def)
  have "process_audio_body E d w = (out, unlink_if_exists p w3)"
    using a by (simp add: process_audio_body_def now_timestamp_def Let_def p_def w2_def)
  then show ?thesis
    using f3 by (simp add: unlink_if_exists_def unlink_def p_def)
qed

lemma process_audio_files:
  "files (snd (process_audio E d w))
     = (files w)(TempFile ''temp_audio_'' (clock w) ''.wav'' := None)"
proof -
  obtain out w' where b: "process_audio_body E d w = (out, w')"
    by (cases "process_audio_body E d w")
  then have "files w' = (files w)(TempFile ''temp_audio_'' (clock w) ''.wav'' := None)"
    using process_audio_body_files [of E d w] by simp
  then show ?thesis
    using b by (cases out) (simp_all add: process_audio_def)
qed

lemma extract_text_world:
  "files (snd (extract_text E img r w)) = files w"
  by (auto simp: extract_text_def split: option.splits sum.splits)

lemma process_image_body_files:
  "files (snd (process_image_body E d w)) = files w"
proof (cases "imdecode E d")
  case None
  then show ?thesis by (simp add: process_image_body_def)
next
  case (Some img)
  show ?thesis
  proof (cases "detect_faces E img default_image_results")
    case (Inl e)
    then show ?thesis using Some by (simp add: process_image_body_def)
  next
    case (Inr r1)
    obtain r2 w2 where x: "extract_text E img r1 w = (r2, w2)"
      by (cases "extract_text E img r1 w")
    then have "files w2 = files w"
      using extract_text_world [of E img r1 w] by simp
    then show ?thesis
      using Some Inr x by (simp add: process_image_body_def Let_def)
  qed
qed

lemma process_image_files:
  "files (snd (process_image E d w)) = files w"
proof -
  obtain out w' where b: "process_image_body E d w = (out, w')"
    by (cases "process_image_body E d w")
  then have "files w' = files w"
    using process_image_body_files [of E d w] by simp
  then show ?thesis
    using b by (cases out) (simp_all add: process_image_def)
qed

lemma analyze_frames_files:
  "files (snd (analyze_frames E c n ts w)) = files w"
proof (induction ts arbitrary: w)
  case Nil
  show ?case by simp
next
  case (Cons t ts)
  show ?case
  proof (cases "get_frame c t")
    case (Inl e)
    then show ?thesis by simp
  next
    case (Inr frame)
    obtain o1 w1 where p: "process_image E (jpeg_encode E frame) w = (o1, w1)"
      by (cases "process_image E (jpeg_encode E frame) w")
    have f1: "files w1 = files w"
      using process_image_files [of E "jpeg_encode E frame" w] p by simp
    show ?thesis
    proof (cases o1)
      case (Inl e)
      then show ?thesis using Inr p f1 by simp
    next
      case (Inr fa)
      note r = Inr
      obtain o2 w2 where q: "analyze_frames E c n ts w1 = (o2, w2)"
        by (cases "analyze_frames E c n ts w1")
      have "files w2 = files w"
        using Cons.IH [of w1] q f1 by simp
      then show ?thesis
        using \<open>get_frame c t = Inr frame\<close> p r q by (cases o2) simp_all
    qed
  qed
qed

lemma analyze_frames_segments:
  "analyze_frames E c n ts w = (Inr segs, w') \<Longrightarrow>
     map segment_start segs = ts
     \<and> (\<forall>s\<in>set segs. segment_end s = segment_start s + duration c / real n)"
proof (induction ts arbitrary: w segs)
  case Nil
  then show ?case by simp
next
  case (Cons t ts)
  from Cons.prems obtain frame fa w1 rest where
    "get_frame c t = Inr frame"
    "process_image E (jpeg_encode E frame) w = (Inr fa, w1)"
    and rest: "analyze_frames E c n ts w1 = (Inr rest, w')"
    and segs: "segs = \<lparr>segment_start = t, segment_end = t + duration c / real n,
                       segment_description = description fa, keyframes = [],
                       segment_objects = objects fa\<rparr> # rest"
    by (auto split: sum.splits prod.splits)
  from Cons.IH [OF rest] show ?case by (simp add: segs)
qed

subsection \<open>Evaluation of the audio and video pipelines\<close>

lemmas video_defs = process_video_def process_video_body_def analyze_video_def video_info_def
  audio_branch_def frame_branch_def extract_audio_def np_linspace_def py_int_def
  default_video_results_def now_timestamp_def write_file_def unlink_def unlink_if_exists_def
  log_error_def log_warning_def show_nat.simps digit_char_def

lemmas audio_defs = process_audio_def process_audio_body_def analyze_audio_def
  extract_audio_features_def recognize_speech_def transcribe_def default_audio_results_def

lemma process_video_outcome:
  "fst (process_video E video_data w)
     = fst (analyze_video E (TempFile ''temp_video_'' (clock w) ''.mp4'') video_data
              default_video_results
              (write_file (TempFile ''temp_video_'' (clock w) ''.mp4'') video_data
                 (w\<lparr>clock := Suc (clock w)\<rparr>)))"
  by (simp add: process_video_def process_video_body_def now_timestamp_def Let_def
      split: prod.splits sum.splits)

lemma process_image_silent:
  "process_image silent_video [255, 216] w = (Inr sample_image_results, w)"
  by (simp add: image_defs silent_video_def no_models_def sample_image_def stable_argsort_def
      sample_image_results_def Let_def)

lemma analyze_frames_silent:
  "analyze_frames silent_video sample_clip n ts w =
     (Inr (map (\<lambda>t. \<lparr>segment_start = t, segment_end = t + 7 / 2 / real n,
                        segment_description = ''Image with indoor scene'', keyframes = [],
                        segment_objects = []\<rparr>) ts), w)"
proof (induction ts)
  case Nil
  show ?case by simp
next
  case (Cons t ts)
  have j: "jpeg_encode silent_video sample_image = [255, 216]"
    by (simp add: silent_video_def no_models_def)
  have g: "get_frame sample_clip t = Inr sample_image" by (simp add: sample_clip_def)
  have d: "duration sample_clip = 7 / 2" by (simp add: sample_clip_def)
  show ?case
    by (simp add: g j d process_image_silent Cons.IH sample_image_results_def)
qed

lemma process_video_silent:
  "fst (process_video silent_video [9] empty_world) =
     Inr \<lparr>video_scenes =
            [\<lparr>segment_start = 0, segment_end = 7 / 6,
              segment_description = ''Image with indoor scene'', keyframes = [],
              segment_objects = []\<rparr>,
             \<lparr>segment_start = 7 / 4, segment_end = 35 / 12,
              segment_description = ''Image with indoor scene'', keyframes = [],
              segment_objects = []\<rparr>,
             \<lparr>segment_start = 7 / 2, segment_end = 14 / 3,
              segment_description = ''Image with indoor scene'', keyframes = [],
              segment_objects = []\<rparr>],
          video_faces = [], audio = None,
          motion = \<lparr>intensity = 0, direction = [], camera_movement = ''static''\<rparr>,
          quality = \<lparr>resolution = ''640x480'', frame_rate = 30, bitrate = 0, stability = 0\<rparr>\<rparr>"
proof -
  have v: "VideoFileClip silent_video = Some (\<lambda>video_data. Inr sample_clip)"
    by (simp add: silent_video_def)
  have c: "clip_audio sample_clip = None" "duration sample_clip = 7 / 2"
    "clip_w sample_clip = 640" "clip_h sample_clip = 480" "fps sample_clip = 30"
    by (simp_all add: sample_clip_def)
  have l: "np_linspace 0 (7 / 2) (min 10 (py_int (7 / 2))) = Inr [0, 7 / 4, 7 / 2]"
    by (simp add: np_linspace_def py_int_def upt_rec)
  show ?thesis
    by (simp add: process_video_outcome analyze_video_def v audio_branch_def frame_branch_def
        c l analyze_frames_silent video_info_def default_video_results_def show_nat.simps
        digit_char_def del: analyze_frames.simps)
qed

subsection \<open>Frame sampling\<close>

lemma py_int_nonneg: "0 \<le> x \<Longrightarrow> py_int x = \<lfloor>x\<rfloor>"
  by (simp add: py_int_def)

lemma np_linspace_length:
  "np_linspace start stop num = Inr ts \<Longrightarrow> length ts = nat num"
  by (auto simp: np_linspace_def split: if_splits)

lemma np_linspace_returns:
  "0 \<le> num \<Longrightarrow> \<exists>ts. np_linspace start stop num = Inr ts"
  by (simp add: np_linspace_def)

lemma sample_count:
  assumes "0 \<le> D"
  shows "\<exists>ts. np_linspace 0 D (min 10 (py_int D)) = Inr ts \<and> length ts = nat (min 10 \<lfloor>D\<rfloor>)"
proof -
  have "0 \<le> min 10 (py_int D)" using assms by (simp add: py_int_nonneg)
  then obtain ts where "np_linspace 0 D (min 10 (py_int D)) = Inr ts"
    using np_linspace_returns by blast
  then show ?thesis
    using np_linspace_length [of 0 D "min 10 (py_int D)" ts] assms
    by (simp add: py_int_nonneg)
qed

lemma frame_branch_Inr:
  assumes "frame_branch E c r2 w1 = (Inr r, w')"
  shows "\<exists>ts. np_linspace 0 (duration c) (min 10 (py_int (duration c))) = Inr ts
           \<and> analyze_frames E c (length ts) ts w1 = (Inr (video_scenes r), w')"
  using assms
  by (auto simp: frame_branch_def split: sum.splits prod.splits)

text \<open>What a returned video result is made of, for a clip that opened.\<close>

lemma analyze_video_Inr:
  assumes "analyze_video E p video_data r0 w = (Inr r, w')"
    and "VideoFileClip E = Some open_clip" and "open_clip video_data = Inr c"
  shows "\<exists>r2 w1. audio_branch E p c (video_info c r0) w = (Inr r2, w1)
           \<and> frame_branch E c r2 w1 = (Inr r, w')"
  using assms
  by (auto simp: analyze_video_def split: sum.splits prod.splits)

lemma process_video_Inr:
  assumes "process_video E video_data w = (Inr r, w')"
  obtains p w2 w3 where "analyze_video E p video_data default_video_results w2 = (Inr r, w3)"
proof -
  obtain out v where b: "process_video_body E video_data w = (out, v)"
    by (cases "process_video_body E video_data w")
  with assms have out: "out = Inr r" by (cases out) (simp_all add: process_video_def)
  define p where "p = TempFile ''temp_video_'' (clock w) ''.mp4''"
  define w2 where "w2 = write_file p video_data (w\<lparr>clock := Suc (clock w)\<rparr>)"
  obtain o3 w3 where a: "analyze_video E p video_data default_video_results w2 = (o3, w3)"
    by (cases "analyze_video E p video_data default_video_results w2")
  then have "process_video_body E video_data w = (o3, unlink_if_exists p w3)"
    by (simp add: process_video_body_def now_timestamp_def Let_def p_def w2_def)
  with b out have "o3 = Inr r" by simp
  with a show ?thesis using that by blast
qed

text \<open>
  Claim C5. For a clip of duration \<open>D \<ge> 0\<close> whose video result is returned, the scenes are
  as many as the sample times, \<open>min 10 \<lfloor>D\<rfloor>\<close>; they start at the sample times
  \<^verbatim>\<open>np.linspace(0, D, min(10, int(D)))\<close> and each ends at its start plus \<open>D\<close> divided by
  the number of samples. The sample times are 0 for \<open>D = 0.5\<close>, 7 for \<open>D = 7\<close> and 10 for
  \<open>D = 25\<close>.
\<close>

theorem frame_sampling:
  assumes "VideoFileClip E = Some open_clip" and "open_clip video_data = Inr c"
    and "0 \<le> duration c"
    and "process_video E video_data w = (Inr r, w')"
  shows "length (video_scenes r) = nat (min 10 \<lfloor>duration c\<rfloor>)
     \<and> np_linspace 0 (duration c) (min 10 (py_int (duration c)))
         = Inr (map segment_start (video_scenes r))
     \<and> (\<forall>s\<in>set (video_scenes r).
           segment_end s = segment_start s + duration c / real (length (video_scenes r)))
     \<and> (\<exists>ts. np_linspace 0 (1 / 2) (min 10 (py_int (1 / 2))) = Inr ts \<and> length ts = 0)
     \<and> (\<exists>ts. np_linspace 0 7 (min 10 (py_int 7)) = Inr ts \<and> length ts = 7)
     \<and> (\<exists>ts. np_linspace 0 25 (min 10 (py_int 25)) = Inr ts \<and> length ts = 10)"
proof -
  from assms(4) obtain p w2 w3 where
    "analyze_video E p video_data default_video_results w2 = (Inr r, w3)"
    by (rule process_video_Inr)
  from analyze_video_Inr [OF this assms(1,2)] obtain r2 w1 where
    "frame_branch E c r2 w1 = (Inr r, w3)" by blast
  from frame_branch_Inr [OF this] obtain ts where
    ts: "np_linspace 0 (duration c) (min 10 (py_int (duration c))) = Inr ts"
    and fr: "analyze_frames E c (length ts) ts w1 = (Inr (video_scenes r), w3)"
    by blast
  note seg = analyze_frames_segments [OF fr]
  from seg have m: "map segment_start (video_scenes r) = ts" by simp
  then have l: "length (video_scenes r) = length ts" by (metis length_map)
  have n: "length ts = nat (min 10 \<lfloor>duration c\<rfloor>)"
    using np_linspace_length [OF ts] assms(3) by (simp add: py_int_nonneg)
  have ex1: "\<exists>ts. np_linspace 0 (1 / 2) (min 10 (py_int (1 / 2))) = Inr ts \<and> length ts = 0"
    using sample_count [of "1 / 2"] by simp
  have ex2: "\<exists>ts. np_linspace 0 7 (min 10 (py_int 7)) = Inr ts \<and> length ts = 7"
    using sample_count [of 7] by simp
  have ex3: "\<exists>ts. np_linspace 0 25 (min 10 (py_int 25)) = Inr ts \<and> length ts = 10"
    using sample_count [of 25] by simp
  show ?thesis
    using l n m ts seg ex1 ex2 ex3 by simp
qed

theorem frame_sampling_witness:
  "VideoFileClip silent_video = Some (\<lambda>video_data. Inr sample_clip)
   \<and> (0::real) \<le> duration sample_clip
   \<and> \<lfloor>duration sample_clip\<rfloor> = 3
   \<and> length (video_scenes (projr (fst (process_video silent_video [9] empty_world)))) = 3
   \<and> map segment_start (video_scenes (projr (fst (process_video silent_video [9] empty_world))))
       = [0, 7 / 4, 7 / 2]
   \<and> map segment_end (video_scenes (projr (fst (process_video silent_video [9] empty_world))))
       = [7 / 6, 35 / 12, 14 / 3]"
proof -
  have v: "VideoFileClip silent_video = Some (\<lambda>video_data. Inr sample_clip)"
    by (simp add: silent_video_def)
  have o: "(\<lambda>video_data. Inr sample_clip) [9] = Inr sample_clip" by simp
  have d: "0 \<le> duration sample_clip" by (simp add: sample_clip_def)
  have fl: "\<lfloor>duration sample_clip\<rfloor> = 3" by (simp add: sample_clip_def)
  have p: "process_video silent_video [9] empty_world
       = (Inr (projr (fst (process_video silent_video [9] empty_world))),
          snd (process_video silent_video [9] empty_world))"
    by (rule prod_eqI) (simp_all add: process_video_silent)
  from frame_sampling [OF v o d p]
  have "length (video_scenes (projr (fst (process_video silent_video [9] empty_world)))) = 3"
    by (simp add: fl)
  with v d fl show ?thesis by (simp add: process_video_silent)
qed

subsection \<open>Failure of the audio branch of a video\<close>





subsection \<open>Temporary files of a video\<close>

text \<open>The raw video file is always deleted: its deletion stands in a \<^verbatim>\<open>finally\<close>.\<close>

lemma process_video_deletes_video_file:
  "files (snd (process_video E video_data w)) (TempFile ''temp_video_'' (clock w) ''.mp4'') = None"
proof -
  define p where "p = TempFile ''temp_video_'' (clock w) ''.mp4''"
  obtain out w3 where a: "analyze_video E p video_data default_video_results
        (write_file p video_data (w\<lparr>clock := Suc (clock w)\<rparr>)) = (out, w3)"
    by (rule prod.exhaust)
  then have b: "process_video_body E video_data w = (out, unlink_if_exists p w3)"
    by (simp add: process_video_body_def now_timestamp_def Let_def p_def)
  have "files (unlink_if_exists p w3) p = None"
    by (simp add: unlink_if_exists_def unlink_def)
  then show ?thesis
    using b by (cases out) (simp_all add: process_video_def p_def)
qed

text \<open>
  Claim C2. The claim asks that no temporary file of an invocation survives it. The raw
  audio file and the raw video file are deleted in a \<^verbatim>\<open>finally\<close>; the audio track extracted
  from a video is deleted by a statement after the call of \<^verbatim>\<open>process_audio\<close>, which does not
  run when that call raises. Here the audio pipeline raises on the extracted track:
  \<^verbatim>\<open>process_video\<close> raises, the video file is gone, and the extracted track is still in
  the scratch directory.
\<close>

theorem extracted_audio_left_behind:
  "fst (process_video video_librosa_fails [9] empty_world) = Inl (RuntimeError ''cannot decode audio'')
   \<and> files (snd (process_video video_librosa_fails [9] empty_world)) (TempFile ''temp_video_'' 0 ''.wav'')
       = Some [7, 7]
   \<and> files (snd (process_video video_librosa_fails [9] empty_world)) (TempFile ''temp_video_'' 0 ''.mp4'')
       = None"
  by (simp add: video_defs audio_defs video_librosa_fails_def no_models_def sample_clip_def
      empty_world_def Let_def)

text \<open>
  In general: whenever the audio pipeline raises on the extracted track, the video request
  fails and the track is still in the scratch directory under the name of the video file
  with the suffix \<^verbatim>\<open>.wav\<close>.
\<close>

lemma audio_track_left_behind:
  assumes "VideoFileClip E = Some open_clip" and "open_clip video_data = Inr c"
    and "clip_audio c = Some (Written audio_data)"
    and "fst (process_audio E audio_data w0) = Inl e"
  shows "fst (process_video E video_data w) = Inl e
     \<and> files (snd (process_video E video_data w)) (TempFile ''temp_video_'' (clock w) ''.wav'')
         = Some audio_data"
proof -
  define p where "p = TempFile ''temp_video_'' (clock w) ''.mp4''"
  define a where "a = TempFile ''temp_video_'' (clock w) ''.wav''"
  define w2 where "w2 = write_file p video_data (w\<lparr>clock := Suc (clock w)\<rparr>)"
  define w3 where "w3 = write_file a audio_data w2"
  obtain out v where pa: "process_audio E audio_data w3 = (out, v)"
    by (rule prod.exhaust)
  have out: "out = Inl e"
    using process_audio_outcome [of E audio_data w3 w0] pa assms(4) by simp
  have "files v = (files w3)(TempFile ''temp_audio_'' (clock w3) ''.wav'' := None)"
    using process_audio_files [of E audio_data w3] pa by simp
  then have fv: "files v a = Some audio_data"
    by (simp add: w3_def write_file_def a_def)
  have x: "extract_audio E p (Written audio_data) w2 = (Inl e, v)"
    using pa out by (simp add: extract_audio_def Let_def p_def a_def w3_def)
  have av: "analyze_video E p video_data default_video_results w2 = (Inl e, v)"
    using assms(1,2,3) x by (simp add: analyze_video_def audio_branch_def)
  have b: "process_video_body E video_data w = (Inl e, unlink_if_exists p v)"
    using av by (simp add: process_video_body_def now_timestamp_def Let_def p_def w2_def)
  have "files (unlink_if_exists p v) a = Some audio_data"
    using fv by (simp add: unlink_if_exists_def unlink_def p_def a_def)
  then show ?thesis
    using b by (simp add: process_video_def a_def)
qed

text \<open>
  This is the case with every capability loaded and working: the audio pipeline raises at
  the lookup of \<^verbatim>\<open>sr.AudioFile\<close>, and the extracted track stays behind.
\<close>

lemma all_loaded_audio_left_behind:
  "fst (process_video video_all_loaded [9] empty_world)
     = Inl (AttributeError ''int object has no attribute AudioFile'')
   \<and> files (snd (process_video video_all_loaded [9] empty_world)) (TempFile ''temp_video_'' 0 ''.wav'')
       = Some [7, 7]
   \<and> files (snd (process_video video_all_loaded [9] empty_world)) (TempFile ''temp_audio_'' 1 ''.wav'')
       = None
   \<and> files (snd (process_video video_all_loaded [9] empty_world)) (TempFile ''temp_video_'' 0 ''.mp4'')
       = None"
  by (simp add: video_defs audio_defs video_all_loaded_def no_models_def sample_clip_def
      hearing_recognizer_def empty_world_def Let_def)

subsection \<open>Speech recognition\<close>




text \<open>
  In \<^verbatim>\<open>process_audio\<close> itself the speech block is not reached: with a recogniser loaded, the
  lookup of \<^verbatim>\<open>sr.AudioFile\<close> on the local variable \<^verbatim>\<open>sr\<close> raises, and the audio pipeline
  raises for every input.
\<close>

lemma speech_block_unreachable:
  assumes "speech_recognizer E = Some rec"
  shows "\<exists>e. fst (process_audio E audio_data w) = Inl e"
proof -
  have "\<exists>e. fst (analyze_audio E audio_data r v) = Inl e" for r v
    using assms
    by (auto simp: analyze_audio_def extract_audio_features_def recognize_speech_def
        split: option.splits sum.splits)
  then obtain e where
    "fst (analyze_audio E audio_data default_audio_results
           (write_file (TempFile ''temp_audio_'' (clock w) ''.wav'') audio_data
              (w\<lparr>clock := Suc (clock w)\<rparr>))) = Inl e"
    by blast
  then have "fst (process_audio E audio_data w) = Inl e"
    by (auto simp: process_audio_def process_audio_body_def now_timestamp_def Let_def
        split: prod.splits sum.splits)
  then show ?thesis by blast
qed


subsection \<open>The envelope\<close>

lemma exactly_one_respond: "exactly_one (fst (respond p))"
  by (cases p; cases "fst p") (simp_all add: respond_def exactly_one_def)

text \<open>
  Claim C9. The envelope of every endpoint (text, image, audio, video) has exactly one of
  payload and error set, and its success flag is true exactly when the payload is set.
  For image bytes that do not decode the envelope is success false, no payload and the
  error ``Invalid image data''.
\<close>

theorem envelope_exactly_one:
  "exactly_one (fst (process_text_endpoint E txt w))
   \<and> exactly_one (fst (process_image_endpoint E image_data w))
   \<and> exactly_one (fst (process_audio_endpoint E audio_data w))
   \<and> exactly_one (fst (process_video_endpoint E video_data w))
   \<and> (imdecode E image_data = None \<longrightarrow>
        fst (process_image_endpoint E image_data w)
          = \<lparr>success = False, results = None, error = Some ''Invalid image data''\<rparr>)"
  by (simp add: exactly_one_respond process_text_endpoint_def process_image_endpoint_def
      process_audio_endpoint_def process_video_endpoint_def)
     (simp add: respond_def process_image_def process_image_body_def)

theorem envelope_exactly_one_witness:
  "imdecode no_models [0] = None
   \<and> fst (process_image_endpoint no_models [0] empty_world)
       = \<lparr>success = False, results = None, error = Some ''Invalid image data''\<rparr>
   \<and> ''Invalid image data'' \<noteq> []
   \<and> exactly_one (fst (process_image_endpoint no_models [0] empty_world))"
proof -
  have n: "imdecode no_models [0] = None" by (simp add: no_models_def)
  from envelope_exactly_one [of no_models "[]" empty_world "[0]" "[]" "[]"] n
  show ?thesis by (simp add: exactly_one_def)
qed


end
